theory Spec2Isabelle
  imports Complex_Main
begin

section \<open>Strings\<close>

text \<open>
  The script \<^verbatim>\<open>populate-marketplace.js\<close> works on JavaScript strings. They are
  modelled as HOL strings read as ASCII text: the case conversions act on the letters
  \<open>A\<close>..\<open>Z\<close> and \<open>a\<close>..\<open>z\<close>, and the white space of the regular expression
  \<^verbatim>\<open>\s\<close> is TAB, LF, VT, FF, CR and the blank. Code units outside ASCII are not
  modelled.
\<close>

definition is_lower :: "char \<Rightarrow> bool" where
  "is_lower c \<longleftrightarrow> (97::nat) \<le> of_char c \<and> of_char c \<le> (122::nat)"

definition is_upper :: "char \<Rightarrow> bool" where
  "is_upper c \<longleftrightarrow> (65::nat) \<le> of_char c \<and> of_char c \<le> (90::nat)"

definition is_space :: "char \<Rightarrow> bool" where
  "is_space c \<longleftrightarrow> ((9::nat) \<le> of_char c \<and> of_char c \<le> (13::nat)) \<or> of_char c = (32::nat)"

definition toLowerChar :: "char \<Rightarrow> char" where
  "toLowerChar c = (if is_upper c then char_of (of_char c + (32::nat)) else c)"

definition toUpperChar :: "char \<Rightarrow> char" where
  "toUpperChar c = (if is_lower c then char_of (of_char c - (32::nat)) else c)"

definition toLowerCase :: "string \<Rightarrow> string" where
  "toLowerCase s = map toLowerChar s"

text \<open>\<^verbatim>\<open>s.startsWith(t)\<close>, \<^verbatim>\<open>s.endsWith(t)\<close> and \<^verbatim>\<open>s.includes(t)\<close>.\<close>

fun startsWith :: "string \<Rightarrow> string \<Rightarrow> bool" where
  "startsWith s [] = True"
| "startsWith [] (d # ds) = False"
| "startsWith (c # cs) (d # ds) = (c = d \<and> startsWith cs ds)"

definition endsWith :: "string \<Rightarrow> string \<Rightarrow> bool" where
  "endsWith s t = startsWith (rev s) (rev t)"

fun includes_str :: "string \<Rightarrow> string \<Rightarrow> bool" where
  "includes_str [] t = (t = [])"
| "includes_str (c # cs) t = (startsWith (c # cs) t \<or> includes_str cs t)"

text \<open>\<^verbatim>\<open>ws.join(' ')\<close>.\<close>

fun join_space :: "string list \<Rightarrow> string" where
  "join_space [] = []"
| "join_space [w] = w"
| "join_space (w # v # ws) = w @ '' '' @ join_space (v # ws)"

text \<open>
  \<^verbatim>\<open>s.split(/\s+/)\<close>: the pieces between the maximal runs of white space. A run at
  the start or at the end of \<open>s\<close> leaves an empty piece there, and the empty string
  splits into one empty piece.
\<close>

fun split_ws :: "string \<Rightarrow> string list" where
  "split_ws [] = [[]]"
| "split_ws (c # cs) =
     (if is_space c then
        (if cs \<noteq> [] \<and> is_space (hd cs) then split_ws cs else [] # split_ws cs)
      else (case split_ws cs of [] \<Rightarrow> [[c]] | t # ts \<Rightarrow> (c # t) # ts))"

section \<open>Filename classifier: \<^verbatim>\<open>parseFilename\<close>\<close>

definition video_extensions :: "string list" where
  "video_extensions = [''.mp4'', ''.mov'', ''.avi'', ''.webm'']"

text \<open>\<^verbatim>\<open>filename.replace(/\.(mp4|mov|avi|webm)$/i, '')\<close>\<close>

definition strip_extension :: "string \<Rightarrow> string" where
  "strip_extension filename =
     (case find (\<lambda>e. endsWith (toLowerCase filename) e) video_extensions of
        None \<Rightarrow> filename
      | Some e \<Rightarrow> take (length filename - length e) filename)"

text \<open>\<^verbatim>\<open>.replace(/[-_]/g, ' ')\<close>\<close>

definition replace_separators :: "string \<Rightarrow> string" where
  "replace_separators s = map (\<lambda>c. if c = CHR ''-'' \<or> c = CHR ''_'' then CHR '' '' else c) s"

text \<open>
  \<^verbatim>\<open>.replace(/([a-z])([A-Z])/g, '$1 $2')\<close>: the matches are found from left to right
  and a match consumes both of its letters.
\<close>

fun split_camel :: "string \<Rightarrow> string" where
  "split_camel (a # b # cs) =
     (if is_lower a \<and> is_upper b then a # CHR '' '' # b # split_camel cs
      else a # split_camel (b # cs))"
| "split_camel cs = cs"

definition cleanName :: "string \<Rightarrow> string" where
  "cleanName filename = toLowerCase (split_camel (replace_separators (strip_extension filename)))"

text \<open>\<^verbatim>\<open>cleanName.split(/\s+/).filter(w => w.length > 2)\<close>\<close>

definition words_of :: "string \<Rightarrow> string list" where
  "words_of filename = filter (\<lambda>w. length w > 2) (split_ws (cleanName filename))"

text \<open>
  The two lookup tables. \<^verbatim>\<open>Object.keys\<close> lists string keys in the order they were
  written, so each table is an association list in the order of the source.
\<close>

definition categoryMap :: "(string \<times> string list) list" where
  "categoryMap =
    [(''nature'', [''nature'', ''landscape'', ''outdoor'', ''scenery'']),
     (''city'', [''urban'', ''cityscape'', ''architecture'', ''downtown'']),
     (''ocean'', [''ocean'', ''sea'', ''water'', ''beach'', ''marine'']),
     (''mountain'', [''mountain'', ''hiking'', ''nature'', ''landscape'']),
     (''sunset'', [''sunset'', ''golden hour'', ''evening'', ''sky'']),
     (''sunrise'', [''sunrise'', ''morning'', ''dawn'', ''sky'']),
     (''food'', [''food'', ''culinary'', ''cooking'', ''restaurant'']),
     (''people'', [''people'', ''lifestyle'', ''social'', ''human'']),
     (''business'', [''business'', ''corporate'', ''professional'', ''office'']),
     (''technology'', [''technology'', ''tech'', ''digital'', ''modern'']),
     (''travel'', [''travel'', ''vacation'', ''tourism'', ''destination'']),
     (''fitness'', [''fitness'', ''health'', ''exercise'', ''workout'']),
     (''abstract'', [''abstract'', ''artistic'', ''creative'', ''design'']),
     (''aerial'', [''aerial'', ''drone'', ''birds eye'', ''top view'']),
     (''slow motion'', [''slow motion'', ''slo mo'', ''cinematic'']),
     (''time lapse'', [''time lapse'', ''timelapse'', ''fast motion'']),
     (''night'', [''night'', ''evening'', ''dark'', ''nighttime'']),
     (''day'', [''day'', ''daytime'', ''bright'', ''sunny'']),
     (''rain'', [''rain'', ''weather'', ''wet'', ''storm'']),
     (''snow'', [''snow'', ''winter'', ''cold'', ''white'']),
     (''fire'', [''fire'', ''flame'', ''heat'', ''burning'']),
     (''water'', [''water'', ''liquid'', ''fluid'', ''aqua'']),
     (''sky'', [''sky'', ''clouds'', ''atmosphere'', ''aerial''])]"

definition useCaseMap :: "(string \<times> string list) list" where
  "useCaseMap =
    [(''nature'', [''Content Creation'', ''Marketing'', ''Background'', ''Social Media'']),
     (''city'', [''Marketing'', ''Real Estate'', ''Travel'', ''Background'']),
     (''business'', [''Corporate Videos'', ''Marketing'', ''Presentations'']),
     (''food'', [''Restaurant Marketing'', ''Content Creation'', ''Social Media'']),
     (''technology'', [''Tech Reviews'', ''Marketing'', ''Presentations'']),
     (''abstract'', [''Background'', ''Transitions'', ''Creative Projects'']),
     (''aerial'', [''Real Estate'', ''Travel'', ''Marketing'', ''Documentaries''])]"

text \<open>
  A JavaScript \<^verbatim>\<open>Set\<close> of strings keeps its elements in the order of their first
  insertion: a list without duplicates, \<^verbatim>\<open>add\<close> appending an element that is new.
\<close>

definition set_add :: "string \<Rightarrow> string list \<Rightarrow> string list" where
  "set_add x xs = (if x \<in> set xs then xs else xs @ [x])"

text \<open>\<^verbatim>\<open>w.charAt(0).toUpperCase() + w.slice(1)\<close>\<close>

fun capitalize :: "string \<Rightarrow> string" where
  "capitalize [] = []"
| "capitalize (c # cs) = toUpperChar c # cs"

text \<open>
  The body of the inner \<^verbatim>\<open>forEach\<close>, for one word and one entry of
  \<open>categoryMap\<close>; the state is the pair of the sets \<^verbatim>\<open>tags\<close> and \<^verbatim>\<open>useCases\<close>.
\<close>

definition match_category ::
  "string \<Rightarrow> string \<times> string list \<Rightarrow> string list \<times> string list \<Rightarrow> string list \<times> string list"
where
  "match_category word entry acc =
     (case entry of (category, category_tags) \<Rightarrow>
      (case acc of (tags, useCases) \<Rightarrow>
        if includes_str word category \<or> includes_str category word then
          (fold set_add category_tags tags,
           (case map_of useCaseMap category of
              Some ucs \<Rightarrow> fold set_add ucs useCases
            | None \<Rightarrow> useCases))
        else (tags, useCases)))"

definition match_word :: "string \<Rightarrow> string list \<times> string list \<Rightarrow> string list \<times> string list" where
  "match_word word acc = fold (match_category word) categoryMap acc"

definition baseline_tags :: "string list" where
  "baseline_tags = [''stock footage'', ''video clip'']"

definition generic_useCases :: "string list" where
  "generic_useCases = [''Content Creation'', ''Marketing'', ''Background'', ''Social Media'']"

definition describe_title :: "string \<Rightarrow> string" where
  "describe_title t =
     ''High-quality '' @ t @
     '' stock footage perfect for your creative projects. This video can be used for content creation, marketing campaigns, social media posts, and more.''"

record parsed =
  title :: string
  tags :: "string list"
  useCases :: "string list"
  description :: string

text \<open>
  The title joined from the words, before the fallback of the \<^verbatim>\<open>return\<close>
  statement is applied: the constant \<^verbatim>\<open>title\<close> of the source.
\<close>

definition raw_title :: "string \<Rightarrow> string" where
  "raw_title filename = join_space (map capitalize (words_of filename))"

definition parseFilename :: "string \<Rightarrow> parsed" where
  "parseFilename filename =
     (let t = raw_title filename;
          found = fold match_word (words_of filename) (fold set_add baseline_tags [], []);
          ucs = (if snd found = [] then fold set_add generic_useCases [] else snd found)
      in \<lparr> title = (if t = [] then ''Stock Video Footage'' else t),
           tags = take 10 (fst found),
           useCases = take 6 ucs,
           description = describe_title (toLowerCase t) \<rparr>)"

section \<open>Numbers\<close>

text \<open>
  A JavaScript number is an IEEE 754 double: \<^verbatim>\<open>NaN\<close>, an infinity, or a finite value,
  which is a rational number. A finite double is modelled by that rational number, and
  an operation that rounds (a division, a subtraction, the reading of a decimal literal)
  by the exact operation followed by \<open>round_double\<close>, the rounding to the nearest
  double, to the even one of two nearest. The sign of zero is not modelled; nothing in
  the script depends on it.

  The dimensions of a video are results of \<^verbatim>\<open>parseInt\<close>: \<^verbatim>\<open>NaN\<close> or an integer.
  They are modelled by the type \<open>jsint\<close>, and the model is the script for the integers
  below \<open>2^53\<close> in absolute value, which are doubles: the rounding of larger integers
  and the exponent notation in which \<^verbatim>\<open>String\<close> prints integers from \<open>10^21\<close> on are
  not modelled. \<^verbatim>\<open>null\<close> is \<open>None\<close>.
\<close>

text \<open>The number of binary digits of a positive integer.\<close>

function bit_length :: "int \<Rightarrow> int" where
  "bit_length k = (if k \<le> 0 then 0 else 1 + bit_length (k div 2))"
  by pat_completeness auto
termination
  by (relation "measure nat") auto

text \<open>For a positive \<open>q\<close>, the exponent \<open>e\<close> with \<open>2^e \<le> q < 2^(e + 1)\<close>.\<close>

definition floor_log2 :: "rat \<Rightarrow> int" where
  "floor_log2 q =
     (let d = bit_length (fst (quotient_of q)) - bit_length (snd (quotient_of q))
      in if 2 powi d \<le> q then d else d - 1)"

definition round_half_even :: "rat \<Rightarrow> int" where
  "round_half_even x =
     (let f = \<lfloor>x\<rfloor>; r = x - of_int f
      in if r < 1 / 2 then f else if r > 1 / 2 then f + 1 else if even f then f else f + 1)"

text \<open>
  The double nearest to \<open>q\<close>. A double has 53 significant bits, so between \<open>2^e\<close> and
  \<open>2^(e + 1)\<close> the doubles are the multiples of \<open>2^(e - 52)\<close>; below \<open>2^(-1022)\<close> they
  are the multiples of \<open>2^(-1074)\<close>. The result is \<open>2^1024\<close> or more in absolute value
  exactly when \<open>q\<close> rounds to an infinity.
\<close>

definition round_double :: "rat \<Rightarrow> rat" where
  "round_double q =
     (if q = 0 then 0
      else (let e = max (floor_log2 \<bar>q\<bar>) (- 1022);
                ulp = 2 powi (e - 52)
            in sgn q * of_int (round_half_even (\<bar>q\<bar> / ulp)) * ulp))"

datatype jsint = IntNaN | IntVal int

datatype jsnum = NaN | PosInfinity | NegInfinity | Num rat

text \<open>The number that a rational value rounds to.\<close>

definition number_of :: "rat \<Rightarrow> jsnum" where
  "number_of q =
     (let v = round_double q
      in if v \<ge> 2 powi 1024 then PosInfinity
         else if v \<le> - (2 powi 1024) then NegInfinity
         else Num v)"

text \<open>Truthiness of a value that is \<^verbatim>\<open>null\<close> or a number: \<^verbatim>\<open>null\<close>, \<^verbatim>\<open>NaN\<close> and zero are falsy.\<close>

fun truthy_int :: "jsint option \<Rightarrow> bool" where
  "truthy_int None = False"
| "truthy_int (Some IntNaN) = False"
| "truthy_int (Some (IntVal n)) = (n \<noteq> 0)"

fun truthy_num :: "jsnum option \<Rightarrow> bool" where
  "truthy_num None = False"
| "truthy_num (Some NaN) = False"
| "truthy_num (Some (Num q)) = (q \<noteq> 0)"
| "truthy_num (Some _) = True"

text \<open>
  \<^verbatim>\<open>x > c\<close> and \<^verbatim>\<open>x >= c\<close> for a finite constant \<open>c\<close> and a value \<open>x\<close> that is
  \<^verbatim>\<open>null\<close> or a number: \<^verbatim>\<open>null\<close> is compared as \<open>0\<close>, and every comparison with
  \<^verbatim>\<open>NaN\<close> is false.
\<close>

fun num_greater :: "jsnum option \<Rightarrow> rat \<Rightarrow> bool" where
  "num_greater None c = (0 > c)"
| "num_greater (Some NaN) c = False"
| "num_greater (Some PosInfinity) c = True"
| "num_greater (Some NegInfinity) c = False"
| "num_greater (Some (Num q)) c = (q > c)"

fun int_at_least :: "jsint option \<Rightarrow> int \<Rightarrow> bool" where
  "int_at_least None c = (0 \<ge> c)"
| "int_at_least (Some IntNaN) c = False"
| "int_at_least (Some (IntVal n)) c = (n \<ge> c)"

text \<open>\<^verbatim>\<open>String(n)\<close> for an integer: its decimal digits.\<close>

definition digit_char :: "int \<Rightarrow> char" where
  "digit_char d = char_of (48 + d)"

function digits_of :: "int \<Rightarrow> string" where
  "digits_of k =
     (if k < 10 then [digit_char k] else digits_of (k div 10) @ [digit_char (k mod 10)])"
  by pat_completeness auto
termination
  by (relation "measure nat") auto

definition int_to_string :: "int \<Rightarrow> string" where
  "int_to_string i = (if i < 0 then CHR ''-'' # digits_of (- i) else digits_of i)"

fun jsint_to_string :: "jsint \<Rightarrow> string" where
  "jsint_to_string IntNaN = ''NaN''"
| "jsint_to_string (IntVal n) = int_to_string n"

section \<open>Metadata normalizer\<close>

text \<open>
  \<^verbatim>\<open>getAspectRatio(width, height)\<close>. The arguments are what the fetcher stores in
  \<^verbatim>\<open>metadata.width\<close> and \<^verbatim>\<open>metadata.height\<close>: \<^verbatim>\<open>null\<close> or a result of \<^verbatim>\<open>parseInt\<close>.
  \<^verbatim>\<open>Math.abs(ratio - c) < 0.1\<close> rounds the difference and reads the literal \<^verbatim>\<open>0.1\<close>
  as a double; the quotients \<^verbatim>\<open>16/9\<close>, \<^verbatim>\<open>9/16\<close>, \<^verbatim>\<open>4/3\<close> and \<^verbatim>\<open>21/9\<close> are rounded
  as the quotient of the dimensions is.
\<close>

definition within_tolerance :: "rat \<Rightarrow> rat \<Rightarrow> bool" where
  "within_tolerance ratio c \<longleftrightarrow> \<bar>round_double (ratio - c)\<bar> < round_double (1 / 10)"

definition getAspectRatio :: "jsint option \<Rightarrow> jsint option \<Rightarrow> string" where
  "getAspectRatio width height =
     (if \<not> truthy_int width \<or> \<not> truthy_int height then ''Unknown''
      else (case (width, height) of
        (Some (IntVal w), Some (IntVal h)) \<Rightarrow>
          (let ratio = round_double (of_int w / of_int h) in
           if within_tolerance ratio (round_double (16 / 9)) then ''16:9 (Landscape)''
           else if within_tolerance ratio (round_double (9 / 16)) then ''9:16 (Portrait)''
           else if within_tolerance ratio 1 then ''1:1 (Square)''
           else if within_tolerance ratio (round_double (4 / 3)) then ''4:3 (Standard)''
           else if within_tolerance ratio (round_double (21 / 9)) then ''21:9 (Ultrawide)''
           else int_to_string w @ ''x'' @ int_to_string h)
      | _ \<Rightarrow> ''Unknown''))"

text \<open>
  \<^verbatim>\<open>formatDuration(seconds)\<close>. The quotient \<^verbatim>\<open>seconds / 60\<close> is rounded; \<^verbatim>\<open>%\<close> is
  the remainder of the division that truncates towards zero, which is exact. For an
  infinite duration \<^verbatim>\<open>mins\<close> is infinite and \<^verbatim>\<open>secs\<close> is \<^verbatim>\<open>NaN\<close>.
\<close>

definition js_rem :: "rat \<Rightarrow> rat \<Rightarrow> rat" where
  "js_rem a b = a - b * of_int (if a / b < 0 then \<lceil>a / b\<rceil> else \<lfloor>a / b\<rfloor>)"

fun formatDuration :: "jsnum option \<Rightarrow> string" where
  "formatDuration (Some PosInfinity) = ''Infinitym NaNs''"
| "formatDuration (Some NegInfinity) = ''NaNs''"
| "formatDuration (Some (Num seconds)) =
     (if seconds = 0 then ''Unknown''
      else (let mins = \<lfloor>round_double (seconds / 60)\<rfloor>; secs = \<lfloor>js_rem seconds 60\<rfloor> in
        if mins > 0 then int_to_string mins @ ''m '' @ int_to_string secs @ ''s''
        else int_to_string secs @ ''s''))"
| "formatDuration _ = ''Unknown''"

text \<open>\<^verbatim>\<open>metadata.width && metadata.height ? `${metadata.width}x${metadata.height}` : 'Unknown'\<close>\<close>

definition resolution_of :: "jsint option \<Rightarrow> jsint option \<Rightarrow> string" where
  "resolution_of width height =
     (if truthy_int width \<and> truthy_int height then
        (case (width, height) of
           (Some w, Some h) \<Rightarrow> jsint_to_string w @ ''x'' @ jsint_to_string h
         | _ \<Rightarrow> ''Unknown'')
      else ''Unknown'')"

text \<open>
  \<^verbatim>\<open>`${(metadata.size / (1024 * 1024)).toFixed(2)} MB`\<close> for a size in bytes, which is
  read as a number and divided. \<^verbatim>\<open>toFixed(2)\<close> takes the integer \<open>n\<close> with \<open>n / 100\<close>
  nearest to the absolute value of the quotient, the larger one of two, and puts the
  sign back; it prints in this way the numbers below \<open>10^21\<close>, and the sizes that
  reach it are not modelled.
\<close>

definition two_digits :: "int \<Rightarrow> string" where
  "two_digits n = [digit_char (n div 10), digit_char (n mod 10)]"

definition toFixed2 :: "rat \<Rightarrow> string" where
  "toFixed2 x =
     (let n = \<lfloor>\<bar>x\<bar> * 100 + 1 / 2\<rfloor>
      in (if x < 0 then ''-'' else []) @ digits_of (n div 100) @ ''.'' @ two_digits (n mod 100))"

definition fileSize_of :: "int \<Rightarrow> string" where
  "fileSize_of bytes =
     toFixed2 (round_double (round_double (of_int bytes) / (1024 * 1024))) @ '' MB''"

section \<open>Pricing\<close>

text \<open>
  The three statements of \<^verbatim>\<open>populateMarketplace\<close> that set \<^verbatim>\<open>price\<close>, in their
  order: each \<open>let\<close> is one assignment. A price is assigned from a literal, tested for
  being zero and printed, never computed with: it is modelled by the decimal number its
  literal denotes.
\<close>

definition price_of :: "jsnum option \<Rightarrow> jsint option \<Rightarrow> rat" where
  "price_of duration width =
     (let price = 4.99;
          price = (if truthy_num duration \<and> num_greater duration 30 then 7.99 else price);
          price = (if truthy_int width \<and> int_at_least width 3840 then 9.99 else price)
      in price)"

section \<open>Storage metadata fetcher: \<^verbatim>\<open>getVideoMetadata\<close>\<close>

text \<open>
  The values of the custom attributes of a stored file. The storage service delivers
  strings; the script also tests \<^verbatim>\<open>hasAudio\<close> against the boolean \<^verbatim>\<open>true\<close>, so
  booleans are values too. A key that is absent reads as \<^verbatim>\<open>undefined\<close>.
\<close>

datatype jsval = JUndefined | JNull | JBool bool | JStr string

fun truthy :: "jsval \<Rightarrow> bool" where
  "truthy JUndefined = False"
| "truthy JNull = False"
| "truthy (JBool b) = b"
| "truthy (JStr s) = (s \<noteq> [])"

fun ToString :: "jsval \<Rightarrow> string" where
  "ToString JUndefined = ''undefined''"
| "ToString JNull = ''null''"
| "ToString (JBool b) = (if b then ''true'' else ''false'')"
| "ToString (JStr s) = s"

definition is_digit :: "char \<Rightarrow> bool" where
  "is_digit c \<longleftrightarrow> (48::nat) \<le> of_char c \<and> of_char c \<le> (57::nat)"

definition is_hex_digit :: "char \<Rightarrow> bool" where
  "is_hex_digit c \<longleftrightarrow> is_digit c
     \<or> ((97::nat) \<le> of_char c \<and> of_char c \<le> (102::nat))
     \<or> ((65::nat) \<le> of_char c \<and> of_char c \<le> (70::nat))"

definition digit_value :: "char \<Rightarrow> int" where
  "digit_value c =
     (if is_digit c then of_char c - 48
      else if (97::nat) \<le> of_char c then of_char c - 87
      else of_char c - 55)"

definition digits_value :: "int \<Rightarrow> string \<Rightarrow> int" where
  "digits_value radix ds = foldl (\<lambda>acc c. acc * radix + digit_value c) 0 ds"

text \<open>
  \<^verbatim>\<open>parseInt(s)\<close> without a radix: leading white space is skipped, a sign is read, the
  prefix \<^verbatim>\<open>0x\<close> or \<^verbatim>\<open>0X\<close> selects radix 16, and the longest run of digits that
  follows is the value. With no digit there the result is \<^verbatim>\<open>NaN\<close>.
\<close>

definition parseInt :: "string \<Rightarrow> jsint" where
  "parseInt s =
     (let t = dropWhile is_space s;
          negative = startsWith t ''-'';
          t = (if startsWith t ''+'' \<or> startsWith t ''-'' then tl t else t);
          hex = (startsWith t ''0x'' \<or> startsWith t ''0X'');
          t = (if hex then drop 2 t else t);
          z = takeWhile (if hex then is_hex_digit else is_digit) t
      in if z = [] then IntNaN
         else (let m = digits_value (if hex then 16 else 10) z
               in IntVal (if negative then - m else m)))"

text \<open>
  \<^verbatim>\<open>parseFloat(s)\<close>: after the leading white space, the longest prefix that is a
  decimal literal (a sign, then \<^verbatim>\<open>Infinity\<close> or digits with an optional fraction
  and an optional exponent), rounded to a double. With no such prefix the result is
  \<^verbatim>\<open>NaN\<close>.
\<close>

definition parse_exponent :: "string \<Rightarrow> int" where
  "parse_exponent t =
     (if startsWith t ''e'' \<or> startsWith t ''E'' then
        (let u = tl t;
             negative = startsWith u ''-'';
             u = (if startsWith u ''+'' \<or> startsWith u ''-'' then tl u else u);
             ds = takeWhile is_digit u
         in if ds = [] then 0
            else (if negative then - digits_value 10 ds else digits_value 10 ds))
      else 0)"

definition parseFloat :: "string \<Rightarrow> jsnum" where
  "parseFloat s =
     (let t = dropWhile is_space s;
          negative = startsWith t ''-'';
          t = (if startsWith t ''+'' \<or> startsWith t ''-'' then tl t else t)
      in if startsWith t ''Infinity'' then (if negative then NegInfinity else PosInfinity)
         else (let ip = takeWhile is_digit t;
                   t = dropWhile is_digit t;
                   fp = (if startsWith t ''.'' then takeWhile is_digit (tl t) else []);
                   t = (if startsWith t ''.'' then dropWhile is_digit (tl t) else t)
               in if ip = [] \<and> fp = [] then NaN
                  else (let m = (of_int (digits_value 10 ip) :: rat)
                                + of_int (digits_value 10 fp) / 10 ^ length fp;
                            v = m * 10 powi parse_exponent t
                        in number_of (if negative then - v else v))))"

text \<open>
  What \<^verbatim>\<open>file.getMetadata()\<close> resolves to: the attributes the storage service keeps
  for a file. \<open>obj_metadata\<close> is the bag of custom attributes, which may be missing.
\<close>

record object_metadata =
  obj_size :: int
  obj_contentType :: string
  obj_timeCreated :: string
  obj_metadata :: "(string \<rightharpoonup> jsval) option"

text \<open>
  A stored file together with the answers of the two backends to the requests the run
  makes for it: \<open>None\<close> is a request that throws.
\<close>

record storage_file =
  file_name :: string
  getMetadata_reply :: "object_metadata option"
  getSignedUrl_reply :: "string option"
  doc_id :: string
  set_succeeds :: bool

record video_metadata =
  md_url :: string
  md_size :: int
  md_contentType :: string
  md_timeCreated :: string
  md_width :: "jsint option"
  md_height :: "jsint option"
  md_duration :: "jsnum option"
  md_hasAudio :: bool

text \<open>\<^verbatim>\<open>customMetadata.key\<close> with \<^verbatim>\<open>customMetadata = metadata.metadata || {}\<close>\<close>

definition custom_attribute :: "object_metadata \<Rightarrow> string \<Rightarrow> jsval" where
  "custom_attribute metadata key =
     (case obj_metadata metadata of
        None \<Rightarrow> JUndefined
      | Some customMetadata \<Rightarrow>
          (case customMetadata key of None \<Rightarrow> JUndefined | Some v \<Rightarrow> v))"

text \<open>The object literal that \<^verbatim>\<open>getVideoMetadata\<close> returns when both requests succeed.\<close>

definition extract_metadata :: "object_metadata \<Rightarrow> string \<Rightarrow> video_metadata" where
  "extract_metadata metadata url =
     \<lparr> md_url = url,
       md_size = obj_size metadata,
       md_contentType = obj_contentType metadata,
       md_timeCreated = obj_timeCreated metadata,
       md_width = (if truthy (custom_attribute metadata ''width'')
                   then Some (parseInt (ToString (custom_attribute metadata ''width''))) else None),
       md_height = (if truthy (custom_attribute metadata ''height'')
                    then Some (parseInt (ToString (custom_attribute metadata ''height''))) else None),
       md_duration = (if truthy (custom_attribute metadata ''duration'')
                      then Some (parseFloat (ToString (custom_attribute metadata ''duration'')))
                      else None),
       md_hasAudio = (custom_attribute metadata ''hasAudio'' = JStr ''true''
                      \<or> custom_attribute metadata ''hasAudio'' = JBool True) \<rparr>"

section \<open>Listing writer: \<^verbatim>\<open>createMarketplaceListing\<close>\<close>

record video_data =
  vd_fileName :: string
  vd_url :: string
  vd_title :: string
  vd_description :: string
  vd_tags :: "string list"
  vd_useCases :: "string list"
  vd_hasAudio :: bool
  vd_aspectRatio :: string
  vd_duration :: string
  vd_durationSeconds :: "jsnum option"
  vd_resolution :: string
  vd_fileSize :: string
  vd_price :: rat

text \<open>\<^verbatim>\<open>admin.firestore.FieldValue.serverTimestamp()\<close>: a marker the store replaces.\<close>

datatype timestamp = ServerTimestamp

record listing =
  l_id :: string
  l_sellerId :: string
  l_sellerName :: string
  l_title :: string
  l_description :: string
  l_videoUrl :: string
  l_generationId :: string
  l_prompt :: string
  l_price :: rat
  l_tags :: "string list"
  l_hasAudio :: bool
  l_useCases :: "string list"
  l_thumbnailUrl :: string
  l_status :: string
  l_createdAt :: timestamp
  l_updatedAt :: timestamp
  l_sold :: nat
  l_aspectRatio :: string
  l_duration :: string
  l_durationSeconds :: "jsnum option"
  l_resolution :: string
  l_fileSize :: string
  l_fileName :: string

text \<open>
  What a run does that can be seen from outside, in the order in which it happens: the
  lines it prints, the calls of the fetcher, of the classifier and of the writer, the
  documents it sends to the store, its pauses (in milliseconds) and the exit of the
  process.
\<close>

datatype event =
    Log_starting
  | Log_found nat
  | Log_no_files
  | Log_processing nat nat string
  | Log_metadata_error string
  | Log_skipping
  | Log_extracted video_data
  | Log_created string string
  | Log_listing_error string
  | Log_complete nat nat nat
  | Log_fatal
  | Log_script_completed
  | Call_getFiles
  | Call_getVideoMetadata string
  | Call_parseFilename string
  | Call_createMarketplaceListing video_data
  | Doc_set listing
  | Sleep nat
  | Exit nat

definition build_listing :: "string \<Rightarrow> video_data \<Rightarrow> listing" where
  "build_listing new_id videoData =
     \<lparr> l_id = new_id,
       l_sellerId = ''admin'',
       l_sellerName = ''Reelzila'',
       l_title = vd_title videoData,
       l_description = vd_description videoData,
       l_videoUrl = vd_url videoData,
       l_generationId = ''imported'',
       l_prompt = toLowerCase (vd_title videoData),
       l_price = (if vd_price videoData \<noteq> 0 then vd_price videoData else 4.99),
       l_tags = vd_tags videoData,
       l_hasAudio = vd_hasAudio videoData,
       l_useCases = vd_useCases videoData,
       l_thumbnailUrl = vd_url videoData,
       l_status = ''published'',
       l_createdAt = ServerTimestamp,
       l_updatedAt = ServerTimestamp,
       l_sold = 0,
       l_aspectRatio = vd_aspectRatio videoData,
       l_duration = vd_duration videoData,
       l_durationSeconds = vd_durationSeconds videoData,
       l_resolution = vd_resolution videoData,
       l_fileSize = vd_fileSize videoData,
       l_fileName = vd_fileName videoData \<rparr>"

text \<open>
  The result of \<^verbatim>\<open>createMarketplaceListing\<close> (\<open>None\<close> is \<^verbatim>\<open>null\<close>) and what it
  does: the document is sent to the store, and the store accepts it or throws.
\<close>

definition createMarketplaceListing :: "storage_file \<Rightarrow> video_data \<Rightarrow> listing option \<times> event list" where
  "createMarketplaceListing file videoData =
     (let listing = build_listing (doc_id file) videoData in
      if set_succeeds file
      then (Some listing, [Doc_set listing, Log_created (vd_title videoData) (vd_fileName videoData)])
      else (None, [Doc_set listing, Log_listing_error (vd_fileName videoData)]))"

text \<open>
  The result of \<^verbatim>\<open>getVideoMetadata\<close> and what it prints: either request that throws
  is caught, reported and answered by \<^verbatim>\<open>null\<close>.
\<close>

definition getVideoMetadata :: "storage_file \<Rightarrow> video_metadata option \<times> event list" where
  "getVideoMetadata file =
     (case getMetadata_reply file of
        None \<Rightarrow> (None, [Log_metadata_error (file_name file)])
      | Some metadata \<Rightarrow>
          (case getSignedUrl_reply file of
             None \<Rightarrow> (None, [Log_metadata_error (file_name file)])
           | Some url \<Rightarrow> (Some (extract_metadata metadata url), [])))"

section \<open>Batch orchestrator: \<^verbatim>\<open>populateMarketplace\<close>\<close>

text \<open>
  \<^verbatim>\<open>path.basename(p)\<close> and \<^verbatim>\<open>path.extname(p)\<close> of Node.js for POSIX paths. The last
  component of a path is what follows its last slash, once the slashes at its end are
  dropped. The extension starts at the last dot of that component; there is none when
  the component has no dot, when its only dot is its first character, or when the
  component is \<^verbatim>\<open>..\<close>.
\<close>

definition basename :: "string \<Rightarrow> string" where
  "basename p = rev (takeWhile (\<lambda>c. c \<noteq> CHR ''/'') (dropWhile (\<lambda>c. c = CHR ''/'') (rev p)))"

definition extname :: "string \<Rightarrow> string" where
  "extname p =
     (let comp = basename p;
          ext = rev (takeWhile (\<lambda>c. c \<noteq> CHR ''.'') (rev comp))
      in if CHR ''.'' \<notin> set comp then []
         else if length ext + 1 = length comp then []
         else if comp = ''..'' then []
         else CHR ''.'' # ext)"

definition is_video_file :: "storage_file \<Rightarrow> bool" where
  "is_video_file file \<longleftrightarrow> toLowerCase (extname (file_name file)) \<in> set video_extensions"

definition build_videoData :: "string \<Rightarrow> video_metadata \<Rightarrow> parsed \<Rightarrow> video_data" where
  "build_videoData fileName metadata p =
     \<lparr> vd_fileName = fileName,
       vd_url = md_url metadata,
       vd_title = title p,
       vd_description = description p,
       vd_tags = tags p,
       vd_useCases = useCases p,
       vd_hasAudio = md_hasAudio metadata,
       vd_aspectRatio = getAspectRatio (md_width metadata) (md_height metadata),
       vd_duration = formatDuration (md_duration metadata),
       vd_durationSeconds = md_duration metadata,
       vd_resolution = resolution_of (md_width metadata) (md_height metadata),
       vd_fileSize = fileSize_of (md_size metadata),
       vd_price = price_of (md_duration metadata) (md_width metadata) \<rparr>"

text \<open>The variables of the loop, and the events of the run so far.\<close>

record run_state =
  successCount :: nat
  errorCount :: nat
  trace :: "event list"

text \<open>
  One iteration of the \<^verbatim>\<open>for\<close> loop, for the file at index \<open>i\<close> of the \<open>n\<close> video
  files. When the fetcher answers \<^verbatim>\<open>null\<close> the iteration ends at \<^verbatim>\<open>continue\<close>.
\<close>

definition loop_body :: "nat \<Rightarrow> nat \<Rightarrow> storage_file \<Rightarrow> run_state \<Rightarrow> run_state" where
  "loop_body i n file st =
     (let fileName = basename (file_name file);
          fetched = getVideoMetadata file;
          st = st\<lparr> trace := trace st @ [Log_processing (i + 1) n fileName,
                                          Call_getVideoMetadata (file_name file)] @ snd fetched \<rparr>
      in case fst fetched of
           None \<Rightarrow> st\<lparr> trace := trace st @ [Log_skipping], errorCount := errorCount st + 1 \<rparr>
         | Some metadata \<Rightarrow>
             (let p = parseFilename fileName;
                  videoData = build_videoData fileName metadata p;
                  written = createMarketplaceListing file videoData;
                  st = st\<lparr> trace := trace st @ [Call_parseFilename fileName, Log_extracted videoData,
                                                  Call_createMarketplaceListing videoData] @ snd written \<rparr>;
                  st = (case fst written of
                          Some listing \<Rightarrow> st\<lparr> successCount := successCount st + 1 \<rparr>
                        | None \<Rightarrow> st\<lparr> errorCount := errorCount st + 1 \<rparr>)
              in st\<lparr> trace := trace st @ [Sleep 500] \<rparr>))"

text \<open>The loop over \<^verbatim>\<open>videoFiles\<close>, from index \<open>i\<close> on: the files left are the argument.\<close>

fun for_loop :: "nat \<Rightarrow> nat \<Rightarrow> storage_file list \<Rightarrow> run_state \<Rightarrow> run_state" where
  "for_loop i n [] st = st"
| "for_loop i n (file # files) st = for_loop (i + 1) n files (loop_body i n file st)"

text \<open>
  How \<^verbatim>\<open>populateMarketplace\<close> ends: it returns, or its \<^verbatim>\<open>catch\<close> block ends the
  process.
\<close>

datatype outcome = Returned | Exited nat

record run =
  events :: "event list"
  result :: outcome

text \<open>
  \<^verbatim>\<open>populateMarketplace\<close>. The argument is the answer of \<^verbatim>\<open>bucket.getFiles()\<close>: the
  stored files in the order of the listing, or \<open>None\<close> when the request throws.
\<close>

definition populateMarketplace :: "storage_file list option \<Rightarrow> run" where
  "populateMarketplace getFiles_reply =
     (case getFiles_reply of
        None \<Rightarrow> \<lparr> events = [Log_starting, Call_getFiles, Log_fatal, Exit 1], result = Exited 1 \<rparr>
      | Some files \<Rightarrow>
          (let videoFiles = filter is_video_file files;
               log = [Log_starting, Call_getFiles, Log_found (length videoFiles)]
           in if length videoFiles = 0
              then \<lparr> events = log @ [Log_no_files], result = Returned \<rparr>
              else (let st = for_loop 0 (length videoFiles) videoFiles
                               \<lparr> successCount = 0, errorCount = 0, trace = log \<rparr>
                    in \<lparr> events = trace st @ [Log_complete (successCount st) (errorCount st)
                                                            (length videoFiles)],
                         result = Returned \<rparr>)))"

text \<open>The script: the run, and the exit with status 0 that follows when it returns.\<close>

definition script :: "storage_file list option \<Rightarrow> event list" where
  "script getFiles_reply =
     (let r = populateMarketplace getFiles_reply in
      case result r of
        Returned \<Rightarrow> events r @ [Log_script_completed, Exit 0]
      | Exited code \<Rightarrow> events r)"

section \<open>The specification's reading of the aspect ratio\<close>

text \<open>
  The five canonical ratios in the order of their priority, each with its label, and
  the classification as the specification words it, in the arithmetic of doubles: the
  first ratio within the tolerance of the quotient gives the label, and a quotient near
  none of them gives the two dimensions.
\<close>

definition canonical_ratios :: "(rat \<times> string) list" where
  "canonical_ratios =
     [(16 / 9, ''16:9 (Landscape)''), (9 / 16, ''9:16 (Portrait)''), (1, ''1:1 (Square)''),
      (4 / 3, ''4:3 (Standard)''), (21 / 9, ''21:9 (Ultrawide)'')]"

definition aspectRatio_spec :: "int \<Rightarrow> int \<Rightarrow> string" where
  "aspectRatio_spec w h =
     (case find (\<lambda>(c, label).
                   within_tolerance (round_double (of_int w / of_int h)) (round_double c))
             canonical_ratios of
        Some (c, label) \<Rightarrow> label
      | None \<Rightarrow> int_to_string w @ ''x'' @ int_to_string h)"

section \<open>Observing a run\<close>

text \<open>
  The fetcher fails for a file when it answers \<^verbatim>\<open>null\<close>; a listing is created for a
  file when the fetcher succeeds and the store accepts the document.
\<close>

definition fetch_fails :: "storage_file \<Rightarrow> bool" where
  "fetch_fails file \<longleftrightarrow> fst (getVideoMetadata file) = None"

definition listing_created :: "storage_file \<Rightarrow> bool" where
  "listing_created file \<longleftrightarrow> \<not> fetch_fails file \<and> set_succeeds file"

text \<open>
  What the events of a run say: the paths the fetcher was called with, the file names
  the classifier and the writer were called with, and the pauses, each in the order of
  the run.
\<close>

definition fetch_calls :: "event list \<Rightarrow> string list" where
  "fetch_calls es = concat (map (\<lambda>e. case e of Call_getVideoMetadata f \<Rightarrow> [f] | _ \<Rightarrow> []) es)"

definition parse_calls :: "event list \<Rightarrow> string list" where
  "parse_calls es = concat (map (\<lambda>e. case e of Call_parseFilename f \<Rightarrow> [f] | _ \<Rightarrow> []) es)"

definition write_calls :: "event list \<Rightarrow> string list" where
  "write_calls es =
     concat (map (\<lambda>e. case e of Call_createMarketplaceListing vd \<Rightarrow> [vd_fileName vd] | _ \<Rightarrow> []) es)"

definition pauses :: "event list \<Rightarrow> nat list" where
  "pauses es = concat (map (\<lambda>e. case e of Sleep ms \<Rightarrow> [ms] | _ \<Rightarrow> []) es)"

text \<open>
  The pacing of a run, read off its events. The state is \<open>Some pending\<close>, where
  \<open>pending\<close> says that the processing of a file has started and no pause of 500 ms has
  followed yet, or \<open>None\<close> once the processing of a file has started while another was
  pending. With \<open>skip_ok\<close> the notice that a file is skipped after a failed fetch
  settles a pending file as a pause does; without it only a pause does.
\<close>

fun pause_step :: "bool \<Rightarrow> event \<Rightarrow> bool option \<Rightarrow> bool option" where
  "pause_step skip_ok e None = None"
| "pause_step skip_ok e (Some pending) =
     (case e of
        Log_processing i n f \<Rightarrow> (if pending then None else Some True)
      | Sleep ms \<Rightarrow> Some (pending \<and> ms \<noteq> 500)
      | Log_skipping \<Rightarrow> Some (pending \<and> \<not> skip_ok)
      | _ \<Rightarrow> Some pending)"

definition pauses_between :: "bool \<Rightarrow> event list \<Rightarrow> bool" where
  "pauses_between skip_ok es \<longleftrightarrow> fold (pause_step skip_ok) es (Some False) \<noteq> None"

text \<open>The events of one iteration of the loop, and of the iterations for a list of files.\<close>

definition fetched_events :: "nat \<Rightarrow> nat \<Rightarrow> storage_file \<Rightarrow> video_metadata \<Rightarrow> event list" where
  "fetched_events i n file metadata =
     (let fileName = basename (file_name file);
          videoData = build_videoData fileName metadata (parseFilename fileName)
      in [Log_processing (i + 1) n fileName, Call_getVideoMetadata (file_name file),
          Call_parseFilename fileName, Log_extracted videoData,
          Call_createMarketplaceListing videoData,
          Doc_set (build_listing (doc_id file) videoData),
          (if set_succeeds file then Log_created (vd_title videoData) fileName
           else Log_listing_error fileName),
          Sleep 500])"

definition skipped_events :: "nat \<Rightarrow> nat \<Rightarrow> storage_file \<Rightarrow> event list" where
  "skipped_events i n file =
     [Log_processing (i + 1) n (basename (file_name file)), Call_getVideoMetadata (file_name file),
      Log_metadata_error (file_name file), Log_skipping]"

definition iteration_events :: "nat \<Rightarrow> nat \<Rightarrow> storage_file \<Rightarrow> event list" where
  "iteration_events i n file =
     (case fst (getVideoMetadata file) of
        None \<Rightarrow> skipped_events i n file
      | Some metadata \<Rightarrow> fetched_events i n file metadata)"

fun loop_events :: "nat \<Rightarrow> nat \<Rightarrow> storage_file list \<Rightarrow> event list" where
  "loop_events i n [] = []"
| "loop_events i n (file # files) = iteration_events i n file @ loop_events (i + 1) n files"

section \<open>Example files\<close>

text \<open>
  Five stored files for the concrete runs below: a video whose metadata request throws,
  a video with well-formed attributes, a file that is no video, a video without custom
  attributes, and a video whose numeric attributes are no numbers.
\<close>

definition unreachable_file :: storage_file where
  "unreachable_file =
     \<lparr> file_name = ''videos/lost-clip.mp4'', getMetadata_reply = None,
       getSignedUrl_reply = Some ''https://storage.example/lost-clip'',
       doc_id = ''doc-1'', set_succeeds = True \<rparr>"

definition stored_clip :: storage_file where
  "stored_clip =
     \<lparr> file_name = ''videos/sunset-beach-walk.mp4'',
       getMetadata_reply = Some
         \<lparr> obj_size = 1048576, obj_contentType = ''video/mp4'',
           obj_timeCreated = ''2025-01-01T00:00:00.000Z'',
           obj_metadata = Some [''width'' \<mapsto> JStr ''1920'', ''height'' \<mapsto> JStr ''1080'',
                               ''duration'' \<mapsto> JStr ''40'', ''hasAudio'' \<mapsto> JStr ''true''] \<rparr>,
       getSignedUrl_reply = Some ''https://storage.example/sunset-beach-walk'',
       doc_id = ''doc-2'', set_succeeds = True \<rparr>"

definition notes_file :: storage_file where
  "notes_file =
     \<lparr> file_name = ''docs/notes.txt'', getMetadata_reply = None, getSignedUrl_reply = None,
       doc_id = ''doc-3'', set_succeeds = True \<rparr>"

definition untagged_clip :: storage_file where
  "untagged_clip =
     \<lparr> file_name = ''videos/city-night.mov'',
       getMetadata_reply = Some
         \<lparr> obj_size = 5242880, obj_contentType = ''video/quicktime'',
           obj_timeCreated = ''2025-01-02T00:00:00.000Z'', obj_metadata = None \<rparr>,
       getSignedUrl_reply = Some ''https://storage.example/city-night'',
       doc_id = ''doc-4'', set_succeeds = True \<rparr>"

definition mistagged_clip :: storage_file where
  "mistagged_clip =
     \<lparr> file_name = ''videos/ocean-waves.mp4'',
       getMetadata_reply = Some
         \<lparr> obj_size = 2097152, obj_contentType = ''video/mp4'',
           obj_timeCreated = ''2025-01-03T00:00:00.000Z'',
           obj_metadata = Some [''width'' \<mapsto> JStr ''abc'', ''height'' \<mapsto> JStr ''tall'',
                               ''duration'' \<mapsto> JStr ''n/a'', ''hasAudio'' \<mapsto> JBool True] \<rparr>,
       getSignedUrl_reply = Some ''https://storage.example/ocean-waves'',
       doc_id = ''doc-5'', set_succeeds = True \<rparr>"

section \<open>Properties of the classifier\<close>

lemma capitalize_empty: "capitalize w = [] \<longleftrightarrow> w = []"
  by (cases w) simp_all

lemma join_space_nonempty: "w \<noteq> [] \<Longrightarrow> join_space (w # ws) \<noteq> []"
  by (cases ws) simp_all

text \<open>The joined title is empty exactly when no word survives the length filter.\<close>

lemma raw_title_empty: "raw_title filename = [] \<longleftrightarrow> words_of filename = []"
proof (cases "words_of filename")
  case Nil
  then show ?thesis by (simp add: raw_title_def)
next
  case (Cons w ws)
  then have "w \<in> set (filter (\<lambda>w. length w > 2) (split_ws (cleanName filename)))"
    by (simp add: words_of_def)
  then have "w \<noteq> []" by auto
  then have "join_space (capitalize w # map capitalize ws) \<noteq> []"
    by (intro join_space_nonempty) (simp add: capitalize_empty)
  with Cons show ?thesis by (simp add: raw_title_def)
qed

text \<open>Adding to a set never moves what is in it: the old elements stay in front.\<close>

lemma set_add_extends: "\<exists>ys. set_add x xs = xs @ ys"
  by (simp add: set_add_def)

lemma fold_set_add_extends: "\<exists>ys. fold set_add l xs = xs @ ys"
proof (induction l arbitrary: xs)
  case (Cons a l)
  obtain ys where a: "set_add a xs = xs @ ys" using set_add_extends by blast
  obtain zs where "fold set_add l (xs @ ys) = (xs @ ys) @ zs" using Cons by blast
  with a show ?case by simp
qed simp

lemma match_category_extends: "\<exists>ys. fst (match_category word entry (xs, us)) = xs @ ys"
proof (cases entry)
  case (Pair category category_tags)
  obtain ys where "fold set_add category_tags xs = xs @ ys"
    using fold_set_add_extends by blast
  with Pair show ?thesis by (simp add: match_category_def)
qed

lemma fold_match_category_extends:
  "\<exists>ys. fst (fold (match_category word) entries (xs, us)) = xs @ ys"
proof (induction entries arbitrary: xs us)
  case (Cons e entries)
  obtain xs' us' where s: "match_category word e (xs, us) = (xs', us')" by force
  obtain ys where "fst (match_category word e (xs, us)) = xs @ ys"
    using match_category_extends by blast
  with s have x: "xs' = xs @ ys" by simp
  obtain zs where "fst (fold (match_category word) entries (xs', us')) = xs' @ zs"
    using Cons by blast
  with s x show ?case by simp
qed simp

lemma fold_match_word_extends: "\<exists>ys. fst (fold match_word ws (xs, us)) = xs @ ys"
proof (induction ws arbitrary: xs us)
  case (Cons w ws)
  obtain xs' us' where s: "match_word w (xs, us) = (xs', us')" by force
  obtain ys where "fst (match_word w (xs, us)) = xs @ ys"
    unfolding match_word_def using fold_match_category_extends by blast
  with s have x: "xs' = xs @ ys" by simp
  obtain zs where "fst (fold match_word ws (xs', us')) = xs' @ zs"
    using Cons by blast
  with s x show ?case by simp
qed simp

lemma baseline_seed: "fold set_add baseline_tags [] = baseline_tags"
  by (simp add: baseline_tags_def set_add_def)

lemma tags_start_with_baseline: "take 2 (tags (parseFilename filename)) = baseline_tags"
proof -
  obtain ys where
    "fst (fold match_word (words_of filename) (baseline_tags, [])) = baseline_tags @ ys"
    using fold_match_word_extends by blast
  then show ?thesis
    by (simp add: parseFilename_def Let_def baseline_seed) (simp add: baseline_tags_def)
qed

lemma words_examples: "words_of ''a.mp4'' = []" "words_of ''sunset-beach-walk.mp4'' \<noteq> []"
  by code_simp+

text \<open>
  C1, as the code has it. For \<^verbatim>\<open>sunset-beach-walk.mp4\<close> the classifier returns the
  title \<^verbatim>\<open>Sunset Beach Walk\<close>; the tags are the two baseline tags and the four tags
  of the category \<^verbatim>\<open>sunset\<close>, and nothing else: a word is matched against the keys
  of the category table, not against the tags of a category, and neither \<^verbatim>\<open>beach\<close>
  nor \<^verbatim>\<open>walk\<close> contains a key or is contained in one. No category that matched has
  use cases, so the use cases are the four generic ones, \<^verbatim>\<open>Content Creation\<close> first.
\<close>

theorem C1_sunset_beach_walk:
  "parseFilename ''sunset-beach-walk.mp4'' =
     \<lparr> title = ''Sunset Beach Walk'',
       tags = [''stock footage'', ''video clip'', ''sunset'', ''golden hour'', ''evening'', ''sky''],
       useCases = [''Content Creation'', ''Marketing'', ''Background'', ''Social Media''],
       description = describe_title ''sunset beach walk'' \<rparr>"
  by code_simp

text \<open>
  C1 as stated fails: the tags of \<^verbatim>\<open>sunset-beach-walk.mp4\<close> contain neither
  \<^verbatim>\<open>ocean\<close> nor \<^verbatim>\<open>sea\<close>.
\<close>

theorem C1_no_ocean_tag:
  "''ocean'' \<notin> set (tags (parseFilename ''sunset-beach-walk.mp4''))
 \<and> ''sea'' \<notin> set (tags (parseFilename ''sunset-beach-walk.mp4''))"
  by code_simp

text \<open>
  C5, as the code has it. For every filename the description is the sentence template
  around the lowercase of the title joined from the words, taken before the fallback of
  the \<^verbatim>\<open>return\<close> statement. When a word survives, that title is the returned one, so
  the description holds the lowercase of the returned title. When none survives, the
  returned title is \<^verbatim>\<open>Stock Video Footage\<close> and the description holds the empty
  string in its place.
\<close>

theorem C5_description_of_joined_title:
  "title (parseFilename filename)
     = (if words_of filename = [] then ''Stock Video Footage'' else raw_title filename)
 \<and> description (parseFilename filename) = describe_title (toLowerCase (raw_title filename))
 \<and> description (parseFilename filename)
     = (if words_of filename = [] then describe_title []
        else describe_title (toLowerCase (title (parseFilename filename))))"
  by (simp add: parseFilename_def Let_def raw_title_empty) (simp add: raw_title_def toLowerCase_def)

text \<open>
  The two cases of C5 at \<^verbatim>\<open>a.mp4\<close>, which has no word longer than two characters,
  and at \<^verbatim>\<open>sunset-beach-walk.mp4\<close>.
\<close>

theorem C5_description_of_joined_title_witness:
  "title (parseFilename ''a.mp4'') = ''Stock Video Footage''
 \<and> description (parseFilename ''a.mp4'') = describe_title []
 \<and> description (parseFilename ''sunset-beach-walk.mp4'')
     = describe_title (toLowerCase (title (parseFilename ''sunset-beach-walk.mp4'')))"
proof -
  note a = C5_description_of_joined_title [of "''a.mp4''"]
  have a1: "title (parseFilename ''a.mp4'') = ''Stock Video Footage''"
    using a [THEN conjunct1] by (simp add: words_examples(1))
  have a2: "description (parseFilename ''a.mp4'') = describe_title []"
    using a [THEN conjunct2, THEN conjunct2] by (simp add: words_examples(1))
  have b: "description (parseFilename ''sunset-beach-walk.mp4'')
     = describe_title (toLowerCase (title (parseFilename ''sunset-beach-walk.mp4'')))"
    using C5_description_of_joined_title [of "''sunset-beach-walk.mp4''",
        THEN conjunct2, THEN conjunct2]
    by (simp add: words_examples(2))
  from a1 a2 b show ?thesis by blast
qed

text \<open>
  C5 as stated fails at \<^verbatim>\<open>a.mp4\<close>: the returned title is the generic one, and the
  description is not the template around its lowercase.
\<close>

theorem C5_generic_title_not_in_description:
  "title (parseFilename ''a.mp4'') = ''Stock Video Footage''
 \<and> description (parseFilename ''a.mp4'')
     \<noteq> describe_title (toLowerCase (title (parseFilename ''a.mp4'')))"
  by code_simp

text \<open>
  C9. The tokens of length greater than 2 of a filename are its \<open>words_of\<close>, whatever
  separates them. For every filename with at least one such token the returned title is
  not empty, and the returned tags, which are the first 10 tags found, start with the
  two baseline tags \<^verbatim>\<open>stock footage\<close> and \<^verbatim>\<open>video clip\<close>; at most 10 tags and at
  most 6 use cases are returned.
\<close>

theorem C9_title_and_baseline_tags:
  assumes "words_of filename \<noteq> []"
  shows "title (parseFilename filename) \<noteq> []
       \<and> ''stock footage'' \<in> set (tags (parseFilename filename))
       \<and> ''video clip'' \<in> set (tags (parseFilename filename))
       \<and> take 2 (tags (parseFilename filename)) = [''stock footage'', ''video clip'']
       \<and> length (tags (parseFilename filename)) \<le> 10
       \<and> length (useCases (parseFilename filename)) \<le> 6"
proof -
  have t: "title (parseFilename filename) \<noteq> []"
    using assms by (simp add: parseFilename_def Let_def raw_title_empty)
  have p: "take 2 (tags (parseFilename filename)) = [''stock footage'', ''video clip'']"
    using tags_start_with_baseline [of filename] by (simp add: baseline_tags_def)
  have "set (take 2 (tags (parseFilename filename))) \<subseteq> set (tags (parseFilename filename))"
    by (rule set_take_subset)
  with p have m: "''stock footage'' \<in> set (tags (parseFilename filename))"
    "''video clip'' \<in> set (tags (parseFilename filename))" by auto
  have l: "length (tags (parseFilename filename)) \<le> 10"
    "length (useCases (parseFilename filename)) \<le> 6"
    by (simp_all add: parseFilename_def Let_def)
  from t p m l show ?thesis by blast
qed

text \<open>C9 at \<^verbatim>\<open>sunset-beach-walk.mp4\<close>, which has three tokens.\<close>

theorem C9_title_and_baseline_tags_witness:
  "words_of ''sunset-beach-walk.mp4'' \<noteq> []
 \<and> title (parseFilename ''sunset-beach-walk.mp4'') \<noteq> []
 \<and> ''stock footage'' \<in> set (tags (parseFilename ''sunset-beach-walk.mp4''))
 \<and> ''video clip'' \<in> set (tags (parseFilename ''sunset-beach-walk.mp4''))"
  using C9_title_and_baseline_tags [OF words_examples(2)] words_examples(2) by blast

section \<open>Properties of pricing and of the normalizer\<close>

text \<open>
  C2. The price is 4.99 for a duration of at most 30 seconds and a width below 3840,
  7.99 for a longer duration and a width below 3840, and 9.99 for every width from
  3840 on, whatever the duration is (a number, an infinity, \<^verbatim>\<open>NaN\<close> or \<^verbatim>\<open>null\<close>):
  the assignment for the width comes last.
\<close>

theorem C2_price_tiers:
  "(d \<le> 30 \<and> w < 3840 \<longrightarrow> price_of (Some (Num d)) (Some (IntVal w)) = 4.99)
 \<and> (d > 30 \<and> w < 3840 \<longrightarrow> price_of (Some (Num d)) (Some (IntVal w)) = 7.99)
 \<and> (w \<ge> 3840 \<longrightarrow> price_of duration (Some (IntVal w)) = 9.99)"
  by (simp add: price_of_def)

text \<open>The three prices of the specification's examples, one for each tier.\<close>

theorem C2_price_tiers_witness:
  "price_of (Some (Num 40)) (Some (IntVal 1920)) = 7.99
 \<and> price_of (Some (Num 40)) (Some (IntVal 3840)) = 9.99
 \<and> price_of (Some (Num 10)) (Some (IntVal 1280)) = 4.99"
  using C2_price_tiers [of 40 1920] C2_price_tiers [of 40 3840 "Some (Num 40)"]
    C2_price_tiers [of 10 1280]
  by simp

lemma getAspectRatio_falsy:
  "\<not> truthy_int width \<or> \<not> truthy_int height \<Longrightarrow> getAspectRatio width height = ''Unknown''"
  by (auto simp: getAspectRatio_def)

lemma round_double_one: "round_double 1 = 1"
  by code_simp

lemma getAspectRatio_classify:
  "w \<noteq> 0 \<Longrightarrow> h \<noteq> 0 \<Longrightarrow>
   getAspectRatio (Some (IntVal w)) (Some (IntVal h)) = aspectRatio_spec w h"
  by (simp add: getAspectRatio_def aspectRatio_spec_def canonical_ratios_def Let_def
      round_double_one)

lemma getAspectRatio_examples:
  "getAspectRatio (Some (IntVal 1920)) (Some (IntVal 1080)) = ''16:9 (Landscape)''"
  "getAspectRatio (Some (IntVal 1080)) (Some (IntVal 1920)) = ''9:16 (Portrait)''"
  "getAspectRatio (Some (IntVal 0)) (Some (IntVal 1080)) = ''Unknown''"
  "getAspectRatio (Some (IntVal 1280)) (Some (IntVal 960)) = ''4:3 (Standard)''"
  by code_simp+

lemma aspectRatio_spec_examples:
  "aspectRatio_spec 2560 1080 = ''21:9 (Ultrawide)''"
  "aspectRatio_spec 800 100 = ''800x100''"
  by code_simp+

text \<open>
  C6. \<^verbatim>\<open>getAspectRatio\<close> answers \<^verbatim>\<open>Unknown\<close> when a dimension is falsy, that is
  missing (\<^verbatim>\<open>null\<close>, or the \<^verbatim>\<open>NaN\<close> of an attribute that is no number) or zero. For
  two dimensions that are not zero it answers as the specification's classification
  does: the label of the first of the five canonical ratios that the quotient is
  within 0.1 of, in the order 16:9, 9:16, 1:1, 4:3, 21:9, and the two dimensions around
  an \<^verbatim>\<open>x\<close> when there is none, all in the arithmetic of doubles. The four examples
  of the specification hold.
\<close>

theorem C6_aspect_ratio:
  "(\<not> truthy_int width \<or> \<not> truthy_int height \<longrightarrow> getAspectRatio width height = ''Unknown'')
 \<and> (w \<noteq> 0 \<and> h \<noteq> 0 \<longrightarrow>
      getAspectRatio (Some (IntVal w)) (Some (IntVal h)) = aspectRatio_spec w h)
 \<and> getAspectRatio (Some (IntVal 1920)) (Some (IntVal 1080)) = ''16:9 (Landscape)''
 \<and> getAspectRatio (Some (IntVal 1080)) (Some (IntVal 1920)) = ''9:16 (Portrait)''
 \<and> getAspectRatio (Some (IntVal 0)) (Some (IntVal 1080)) = ''Unknown''
 \<and> getAspectRatio (Some (IntVal 1280)) (Some (IntVal 960)) = ''4:3 (Standard)''"
proof (intro conjI impI)
  show "getAspectRatio (Some (IntVal 1920)) (Some (IntVal 1080)) = ''16:9 (Landscape)''"
    by (rule getAspectRatio_examples(1))
  show "getAspectRatio (Some (IntVal 1080)) (Some (IntVal 1920)) = ''9:16 (Portrait)''"
    by (rule getAspectRatio_examples(2))
  show "getAspectRatio (Some (IntVal 0)) (Some (IntVal 1080)) = ''Unknown''"
    by (rule getAspectRatio_examples(3))
  show "getAspectRatio (Some (IntVal 1280)) (Some (IntVal 960)) = ''4:3 (Standard)''"
    by (rule getAspectRatio_examples(4))
next
  assume "\<not> truthy_int width \<or> \<not> truthy_int height"
  then show "getAspectRatio width height = ''Unknown''" by (rule getAspectRatio_falsy)
next
  assume "w \<noteq> 0 \<and> h \<noteq> 0"
  then show "getAspectRatio (Some (IntVal w)) (Some (IntVal h)) = aspectRatio_spec w h"
    by (simp add: getAspectRatio_classify)
qed

text \<open>
  C6 at a missing width, at 2560 by 1080, which is 21:9, and at 800 by 100, which is
  near no canonical ratio.
\<close>

theorem C6_aspect_ratio_witness:
  "\<not> truthy_int None
 \<and> getAspectRatio None (Some (IntVal 1080)) = ''Unknown''
 \<and> (2560::int) \<noteq> 0 \<and> (1080::int) \<noteq> 0
 \<and> getAspectRatio (Some (IntVal 2560)) (Some (IntVal 1080)) = ''21:9 (Ultrawide)''
 \<and> getAspectRatio (Some (IntVal 800)) (Some (IntVal 100)) = ''800x100''"
proof -
  have c: "\<not> truthy_int None" by simp
  have d: "(2560::int) \<noteq> 0 \<and> (1080::int) \<noteq> 0" "(800::int) \<noteq> 0 \<and> (100::int) \<noteq> 0"
    by simp_all
  from C6_aspect_ratio [of None "Some (IntVal 1080)" 2560 1080] c d
  have e: "getAspectRatio None (Some (IntVal 1080)) = ''Unknown''"
    "getAspectRatio (Some (IntVal 2560)) (Some (IntVal 1080)) = aspectRatio_spec 2560 1080"
    by blast+
  from C6_aspect_ratio [of None None 800 100] d
  have f: "getAspectRatio (Some (IntVal 800)) (Some (IntVal 100)) = aspectRatio_spec 800 100"
    by blast
  from c d e f aspectRatio_spec_examples show ?thesis by simp
qed

section \<open>Properties of the fetcher\<close>

lemma extract_ok:
  assumes "getMetadata_reply file = Some m" "getSignedUrl_reply file = Some u"
  shows "fst (getVideoMetadata file) = Some (extract_metadata m u)"
  using assms by (simp add: getVideoMetadata_def)

lemma unparsable_examples:
  "parseInt ''abc'' = IntNaN" "parseInt ''tall'' = IntNaN" "parseFloat ''n/a'' = NaN"
  by code_simp+

lemma mistagged_attributes:
  "custom_attribute (the (getMetadata_reply mistagged_clip)) ''width'' = JStr ''abc''"
  "custom_attribute (the (getMetadata_reply mistagged_clip)) ''height'' = JStr ''tall''"
  "custom_attribute (the (getMetadata_reply mistagged_clip)) ''duration'' = JStr ''n/a''"
  "custom_attribute (the (getMetadata_reply mistagged_clip)) ''hasAudio'' = JBool True"
  by (simp_all add: mistagged_clip_def custom_attribute_def)

lemma untagged_attributes:
  "custom_attribute (the (getMetadata_reply untagged_clip)) key = JUndefined"
  by (simp add: untagged_clip_def custom_attribute_def)

lemma mistagged_replies:
  "getMetadata_reply mistagged_clip = Some (the (getMetadata_reply mistagged_clip))"
  "getSignedUrl_reply mistagged_clip = Some ''https://storage.example/ocean-waves''"
  by (simp_all add: mistagged_clip_def)

lemma untagged_replies:
  "getMetadata_reply untagged_clip = Some (the (getMetadata_reply untagged_clip))"
  "getSignedUrl_reply untagged_clip = Some ''https://storage.example/city-night''"
  by (simp_all add: untagged_clip_def)

text \<open>
  C4, as the code has it. When both requests to the storage service succeed the fetcher
  returns a record, whatever the custom attributes are: no attribute makes it fail. An
  attribute among \<^verbatim>\<open>width\<close>, \<^verbatim>\<open>height\<close> and \<^verbatim>\<open>duration\<close> that is absent, or falsy
  in another way (empty, \<^verbatim>\<open>null\<close>, \<^verbatim>\<open>false\<close>), yields \<^verbatim>\<open>null\<close>. One that is present
  and that \<^verbatim>\<open>parseInt\<close> (for the duration: \<^verbatim>\<open>parseFloat\<close>) cannot read as a number
  yields \<^verbatim>\<open>NaN\<close>, which is a number and not \<^verbatim>\<open>null\<close>. \<^verbatim>\<open>hasAudio\<close> is true exactly
  when the attribute is the string \<^verbatim>\<open>true\<close> or the boolean \<^verbatim>\<open>true\<close>.
\<close>

theorem C4_absent_null_unparsable_NaN:
  assumes "getMetadata_reply file = Some m" and "getSignedUrl_reply file = Some u"
  shows "\<exists>md. fst (getVideoMetadata file) = Some md
    \<and> (\<not> truthy (custom_attribute m ''width'') \<longrightarrow> md_width md = None)
    \<and> (\<not> truthy (custom_attribute m ''height'') \<longrightarrow> md_height md = None)
    \<and> (\<not> truthy (custom_attribute m ''duration'') \<longrightarrow> md_duration md = None)
    \<and> (truthy (custom_attribute m ''width'')
         \<and> parseInt (ToString (custom_attribute m ''width'')) = IntNaN
          \<longrightarrow> md_width md = Some IntNaN)
    \<and> (truthy (custom_attribute m ''height'')
         \<and> parseInt (ToString (custom_attribute m ''height'')) = IntNaN
          \<longrightarrow> md_height md = Some IntNaN)
    \<and> (truthy (custom_attribute m ''duration'')
         \<and> parseFloat (ToString (custom_attribute m ''duration'')) = NaN
          \<longrightarrow> md_duration md = Some NaN)
    \<and> (md_hasAudio md \<longleftrightarrow>
         custom_attribute m ''hasAudio'' = JStr ''true''
         \<or> custom_attribute m ''hasAudio'' = JBool True)"
  using extract_ok [OF assms] by (simp add: extract_metadata_def)

text \<open>
  C4 at a video without custom attributes and at a video whose \<^verbatim>\<open>width\<close>,
  \<^verbatim>\<open>height\<close> and \<^verbatim>\<open>duration\<close> are the strings \<^verbatim>\<open>abc\<close>, \<^verbatim>\<open>tall\<close> and \<^verbatim>\<open>n/a\<close>
  and whose \<^verbatim>\<open>hasAudio\<close> is the boolean \<^verbatim>\<open>true\<close>.
\<close>

theorem C4_absent_null_unparsable_NaN_witness:
  "(\<exists>md. fst (getVideoMetadata untagged_clip) = Some md
      \<and> md_width md = None \<and> md_height md = None \<and> md_duration md = None \<and> \<not> md_hasAudio md)
 \<and> (\<exists>md. fst (getVideoMetadata mistagged_clip) = Some md
      \<and> md_width md = Some IntNaN \<and> md_height md = Some IntNaN \<and> md_duration md = Some NaN
      \<and> md_hasAudio md)"
proof
  from C4_absent_null_unparsable_NaN [OF untagged_replies]
  show "\<exists>md. fst (getVideoMetadata untagged_clip) = Some md
      \<and> md_width md = None \<and> md_height md = None \<and> md_duration md = None \<and> \<not> md_hasAudio md"
    by (simp add: untagged_attributes)
next
  from C4_absent_null_unparsable_NaN [OF mistagged_replies]
  show "\<exists>md. fst (getVideoMetadata mistagged_clip) = Some md
      \<and> md_width md = Some IntNaN \<and> md_height md = Some IntNaN \<and> md_duration md = Some NaN
      \<and> md_hasAudio md"
    by (simp add: mistagged_attributes unparsable_examples)
qed

text \<open>
  C4 as stated fails at the video whose numeric attributes are no numbers: the fetcher
  returns a record whose width, height and duration are \<^verbatim>\<open>NaN\<close>, not \<^verbatim>\<open>null\<close>.
\<close>

theorem C4_unparsable_is_not_null:
  "map_option md_width (fst (getVideoMetadata mistagged_clip)) = Some (Some IntNaN)
 \<and> map_option md_height (fst (getVideoMetadata mistagged_clip)) = Some (Some IntNaN)
 \<and> map_option md_duration (fst (getVideoMetadata mistagged_clip)) = Some (Some NaN)"
  unfolding extract_ok [OF mistagged_replies]
  by (simp add: extract_metadata_def mistagged_attributes unparsable_examples)

section \<open>Properties of the orchestrator\<close>

lemma getVideoMetadata_cases:
  "getVideoMetadata file = (None, [Log_metadata_error (file_name file)])
   \<or> (\<exists>metadata. getVideoMetadata file = (Some metadata, []))"
  by (simp add: getVideoMetadata_def split: option.split)

lemma vd_fileName_build [simp]: "vd_fileName (build_videoData fileName metadata p) = fileName"
  by (simp add: build_videoData_def)

text \<open>One iteration, when the fetcher fails and when it succeeds.\<close>

lemma loop_body_skipped:
  assumes "fetch_fails file"
  shows "loop_body i n file st =
     st\<lparr> trace := trace st @ skipped_events i n file, errorCount := errorCount st + 1 \<rparr>"
proof -
  from assms getVideoMetadata_cases [of "file"]
  have "getVideoMetadata file = (None, [Log_metadata_error (file_name file)])"
    by (auto simp: fetch_fails_def)
  then show ?thesis
    by (simp add: loop_body_def skipped_events_def Let_def)
qed

lemma loop_body_fetched:
  assumes "fst (getVideoMetadata file) = Some metadata"
  shows "loop_body i n file st =
     (if set_succeeds file
      then st\<lparr> trace := trace st @ fetched_events i n file metadata,
               successCount := successCount st + 1 \<rparr>
      else st\<lparr> trace := trace st @ fetched_events i n file metadata,
               errorCount := errorCount st + 1 \<rparr>)"
proof -
  from assms getVideoMetadata_cases [of "file"]
  have "getVideoMetadata file = (Some metadata, [])" by auto
  then show ?thesis
    by (simp add: loop_body_def fetched_events_def createMarketplaceListing_def Let_def)
qed

lemma loop_body_trace: "trace (loop_body i n file st) = trace st @ iteration_events i n file"
proof (cases "fst (getVideoMetadata file)")
  case None
  then have "fetch_fails file" by (simp add: fetch_fails_def)
  from loop_body_skipped [OF this] None show ?thesis by (simp add: iteration_events_def)
next
  case (Some metadata)
  from loop_body_fetched [OF this] Some show ?thesis by (simp add: iteration_events_def)
qed

lemma loop_body_counts:
  "successCount (loop_body i n file st) = successCount st + (if listing_created file then 1 else 0)
 \<and> errorCount (loop_body i n file st) = errorCount st + (if listing_created file then 0 else 1)"
proof (cases "fst (getVideoMetadata file)")
  case None
  then have f: "fetch_fails file" by (simp add: fetch_fails_def)
  from loop_body_skipped [OF f] f show ?thesis by (simp add: listing_created_def)
next
  case (Some metadata)
  then have "\<not> fetch_fails file" by (simp add: fetch_fails_def)
  with loop_body_fetched [OF Some] show ?thesis by (simp add: listing_created_def)
qed

text \<open>The loop: its events are those of its iterations, and its counters count the files.\<close>

lemma for_loop_trace: "trace (for_loop i n files st) = trace st @ loop_events i n files"
  by (induction files arbitrary: i st) (simp_all add: loop_body_trace)

lemma for_loop_counts:
  "successCount (for_loop i n files st) = successCount st + length (filter listing_created files)
 \<and> errorCount (for_loop i n files st)
     = errorCount st + length (filter (\<lambda>f. \<not> listing_created f) files)"
  by (induction files arbitrary: i st) (simp_all add: loop_body_counts)

lemma fetch_calls_append [simp]: "fetch_calls (xs @ ys) = fetch_calls xs @ fetch_calls ys"
  by (simp add: fetch_calls_def)

lemma parse_calls_append [simp]: "parse_calls (xs @ ys) = parse_calls xs @ parse_calls ys"
  by (simp add: parse_calls_def)

lemma write_calls_append [simp]: "write_calls (xs @ ys) = write_calls xs @ write_calls ys"
  by (simp add: write_calls_def)

lemma pauses_append [simp]: "pauses (xs @ ys) = pauses xs @ pauses ys"
  by (simp add: pauses_def)

lemma fetch_calls_Cons:
  "fetch_calls (e # es) = (case e of Call_getVideoMetadata f \<Rightarrow> [f] | _ \<Rightarrow> []) @ fetch_calls es"
  by (simp add: fetch_calls_def)

lemma parse_calls_Cons:
  "parse_calls (e # es) = (case e of Call_parseFilename f \<Rightarrow> [f] | _ \<Rightarrow> []) @ parse_calls es"
  by (simp add: parse_calls_def)

lemma write_calls_Cons:
  "write_calls (e # es) =
     (case e of Call_createMarketplaceListing vd \<Rightarrow> [vd_fileName vd] | _ \<Rightarrow> []) @ write_calls es"
  by (simp add: write_calls_def)

lemma pauses_Cons:
  "pauses (e # es) = (case e of Sleep ms \<Rightarrow> [ms] | _ \<Rightarrow> []) @ pauses es"
  by (simp add: pauses_def)

lemma observers_Nil:
  "fetch_calls [] = []" "parse_calls [] = []" "write_calls [] = []" "pauses [] = []"
  by (simp_all add: fetch_calls_def parse_calls_def write_calls_def pauses_def)

lemma iteration_calls:
  "fetch_calls (iteration_events i n file) = [file_name file]
 \<and> parse_calls (iteration_events i n file)
     = (if fetch_fails file then [] else [basename (file_name file)])
 \<and> write_calls (iteration_events i n file)
     = (if fetch_fails file then [] else [basename (file_name file)])
 \<and> pauses (iteration_events i n file) = (if fetch_fails file then [] else [500])"
  by (cases "fst (getVideoMetadata file)")
    (simp_all add: iteration_events_def skipped_events_def fetched_events_def fetch_fails_def
      fetch_calls_def parse_calls_def write_calls_def pauses_def Let_def)

lemma loop_calls:
  "fetch_calls (loop_events i n files) = map file_name files
 \<and> parse_calls (loop_events i n files)
     = map (\<lambda>f. basename (file_name f)) (filter (\<lambda>f. \<not> fetch_fails f) files)
 \<and> write_calls (loop_events i n files)
     = map (\<lambda>f. basename (file_name f)) (filter (\<lambda>f. \<not> fetch_fails f) files)
 \<and> pauses (loop_events i n files)
     = replicate (length (filter (\<lambda>f. \<not> fetch_fails f) files)) 500"
proof (induction files arbitrary: i)
  case Nil
  show ?case by (simp add: observers_Nil)
next
  case (Cons f files)
  from Cons [of "i + 1"] iteration_calls [of i n f] show ?case by simp
qed

lemma iteration_pause_step:
  "fold (pause_step True) (iteration_events i n file) (Some False) = Some False"
  by (cases "fst (getVideoMetadata file)")
    (simp_all add: iteration_events_def skipped_events_def fetched_events_def Let_def)

lemma loop_pause_step: "fold (pause_step True) (loop_events i n files) (Some False) = Some False"
  by (induction files arbitrary: i) (simp_all add: iteration_pause_step)

text \<open>The events of a run whose listing request succeeds.\<close>

lemma populate_events_filter:
  "events (populateMarketplace (Some files)) =
     (if filter is_video_file files = []
      then [Log_starting, Call_getFiles, Log_found 0, Log_no_files]
      else [Log_starting, Call_getFiles, Log_found (length (filter is_video_file files))]
           @ loop_events 0 (length (filter is_video_file files)) (filter is_video_file files)
           @ [Log_complete (length (filter listing_created (filter is_video_file files)))
                (length (filter (\<lambda>f. \<not> listing_created f) (filter is_video_file files)))
                (length (filter is_video_file files))])"
  by (simp add: populateMarketplace_def Let_def for_loop_trace for_loop_counts del: filter_filter)

lemma populate_events:
  assumes "filter is_video_file files = vf"
  shows "events (populateMarketplace (Some files)) =
     (if vf = []
      then [Log_starting, Call_getFiles, Log_found 0, Log_no_files]
      else [Log_starting, Call_getFiles, Log_found (length vf)]
           @ loop_events 0 (length vf) vf
           @ [Log_complete (length (filter listing_created vf))
                (length (filter (\<lambda>f. \<not> listing_created f) vf)) (length vf)])"
  using populate_events_filter [of files] unfolding assms .

lemma populate_result: "result (populateMarketplace (Some files)) = Returned"
  by (simp add: populateMarketplace_def Let_def)

lemma run_observed:
  assumes "filter is_video_file files = vf"
  shows "fetch_calls (events (populateMarketplace (Some files))) = map file_name vf"
    and "parse_calls (events (populateMarketplace (Some files)))
           = map (\<lambda>f. basename (file_name f)) (filter (\<lambda>f. \<not> fetch_fails f) vf)"
    and "write_calls (events (populateMarketplace (Some files)))
           = map (\<lambda>f. basename (file_name f)) (filter (\<lambda>f. \<not> fetch_fails f) vf)"
    and "pauses (events (populateMarketplace (Some files)))
           = replicate (length (filter (\<lambda>f. \<not> fetch_fails f) vf)) 500"
proof -
  note ev = populate_events [OF assms]
  show "fetch_calls (events (populateMarketplace (Some files))) = map file_name vf"
    by (cases "vf = []") (simp_all add: ev fetch_calls_Cons observers_Nil loop_calls)
  show "parse_calls (events (populateMarketplace (Some files)))
           = map (\<lambda>f. basename (file_name f)) (filter (\<lambda>f. \<not> fetch_fails f) vf)"
    by (cases "vf = []") (simp_all add: ev parse_calls_Cons observers_Nil loop_calls)
  show "write_calls (events (populateMarketplace (Some files)))
           = map (\<lambda>f. basename (file_name f)) (filter (\<lambda>f. \<not> fetch_fails f) vf)"
    by (cases "vf = []") (simp_all add: ev write_calls_Cons observers_Nil loop_calls)
  show "pauses (events (populateMarketplace (Some files)))
           = replicate (length (filter (\<lambda>f. \<not> fetch_fails f) vf)) 500"
    by (cases "vf = []") (simp_all add: ev pauses_Cons observers_Nil loop_calls)
qed

lemma run_pauses_between:
  "pauses_between True (events (populateMarketplace (Some files)))"
proof -
  note ev = populate_events [OF refl, of files]
  show ?thesis
    by (cases "filter is_video_file files = []")
      (simp_all add: ev pauses_between_def loop_pause_step)
qed

text \<open>The example files.\<close>

lemma example_extensions:
  "toLowerCase (extname ''videos/lost-clip.mp4'') = ''.mp4''"
  "toLowerCase (extname ''videos/sunset-beach-walk.mp4'') = ''.mp4''"
  "toLowerCase (extname ''docs/notes.txt'') = ''.txt''"
  by code_simp+

lemma is_video_unreachable: "is_video_file unreachable_file"
  by (simp add: is_video_file_def unreachable_file_def example_extensions video_extensions_def)

lemma is_video_stored: "is_video_file stored_clip"
  by (simp add: is_video_file_def stored_clip_def example_extensions video_extensions_def)

lemma not_video_notes: "\<not> is_video_file notes_file"
  by (simp add: is_video_file_def notes_file_def example_extensions video_extensions_def)

lemma fetch_fails_unreachable: "fetch_fails unreachable_file"
  by (simp add: fetch_fails_def getVideoMetadata_def unreachable_file_def)

lemma fetch_ok_stored: "\<not> fetch_fails stored_clip"
  by (simp add: fetch_fails_def getVideoMetadata_def stored_clip_def)

lemma example_candidates:
  "filter is_video_file [unreachable_file, stored_clip] = [unreachable_file, stored_clip]"
  "filter is_video_file [unreachable_file, notes_file, stored_clip] = [unreachable_file, stored_clip]"
  "filter is_video_file [notes_file] = []"
  by (simp_all add: is_video_unreachable is_video_stored not_video_notes)

lemma example_fetched:
  "filter (\<lambda>f. \<not> fetch_fails f) [unreachable_file, stored_clip] = [stored_clip]"
  by (simp add: fetch_fails_unreachable fetch_ok_stored)

text \<open>
  C3, as the code has it. In every run, when the processing of a file starts, each file
  started before it has been followed by a pause of 500 ms or by the notice that it
  is skipped because its metadata could not be fetched; and the pauses of the run are
  one pause of 500 ms for each candidate file whose metadata was fetched, whether its
  listing was then written or the write failed. A candidate whose fetch fails is
  followed by no pause: the loop goes on to the next file at once.
\<close>

theorem C3_pause_after_fetched_file:
  "pauses_between True (events (populateMarketplace (Some files)))
 \<and> pauses (events (populateMarketplace (Some files)))
     = replicate (length (filter (\<lambda>f. \<not> fetch_fails f) (filter is_video_file files))) 500"
  using run_pauses_between [of files] run_observed(4) [OF refl, of files] by blast

text \<open>
  C3 at the run over a video whose fetch fails and a video that is processed: one pause.
\<close>

theorem C3_pause_after_fetched_file_witness:
  "pauses_between True (events (populateMarketplace (Some [unreachable_file, stored_clip])))
 \<and> pauses (events (populateMarketplace (Some [unreachable_file, stored_clip]))) = [500]"
proof -
  have "filter (\<lambda>f. \<not> fetch_fails f) (filter is_video_file [unreachable_file, stored_clip])
      = [stored_clip]"
    by (simp only: example_candidates example_fetched)
  with C3_pause_after_fetched_file [of "[unreachable_file, stored_clip]"] show ?thesis by simp
qed

text \<open>
  C3 as stated fails: in the run over a video whose fetch fails and a second video, the
  processing of the second starts with no pause after the first.
\<close>

theorem C3_no_pause_after_failed_fetch:
  "\<not> pauses_between False (events (populateMarketplace (Some [unreachable_file, stored_clip])))"
proof -
  have a: "fold (pause_step False) (iteration_events i n unreachable_file) (Some False) = Some True"
    for i n
    using fetch_fails_unreachable
    by (simp add: iteration_events_def fetch_fails_def skipped_events_def)
  obtain metadata where m: "fst (getVideoMetadata stored_clip) = Some metadata"
    using fetch_ok_stored by (auto simp: fetch_fails_def)
  have b: "fold (pause_step False) (iteration_events i n stored_clip) (Some True) = None"
    for i n
    by (simp add: iteration_events_def m fetched_events_def Let_def)
  show ?thesis
    by (simp add: pauses_between_def populate_events [OF example_candidates(1)] a b)
qed

text \<open>
  C7. When the fetcher fails for a file, the iteration adds 1 to the error counter,
  leaves the success counter as it is, and its only events are the progress line, the
  call of the fetcher, the error line of the fetcher and the skip notice: neither the
  classifier nor the writer is called. In every run the fetcher is called for every
  candidate file, in the order of the listing, whatever happened to the files before;
  the classifier and the writer are called for exactly the candidates whose fetch
  succeeded.
\<close>

theorem C7_fetch_failure_skips_file:
  "(fetch_fails file \<longrightarrow>
      loop_body i n file st =
        st\<lparr> trace := trace st @ [Log_processing (i + 1) n (basename (file_name file)),
                                  Call_getVideoMetadata (file_name file),
                                  Log_metadata_error (file_name file), Log_skipping],
            errorCount := errorCount st + 1 \<rparr>)
 \<and> fetch_calls (events (populateMarketplace (Some files)))
     = map file_name (filter is_video_file files)
 \<and> parse_calls (events (populateMarketplace (Some files)))
     = map (\<lambda>f. basename (file_name f))
         (filter (\<lambda>f. \<not> fetch_fails f) (filter is_video_file files))
 \<and> write_calls (events (populateMarketplace (Some files)))
     = map (\<lambda>f. basename (file_name f))
         (filter (\<lambda>f. \<not> fetch_fails f) (filter is_video_file files))"
proof (intro conjI impI)
  assume "fetch_fails file"
  from loop_body_skipped [OF this, of i n st]
  show "loop_body i n file st =
        st\<lparr> trace := trace st @ [Log_processing (i + 1) n (basename (file_name file)),
                                  Call_getVideoMetadata (file_name file),
                                  Log_metadata_error (file_name file), Log_skipping],
            errorCount := errorCount st + 1 \<rparr>"
    by (simp add: skipped_events_def)
next
  show "fetch_calls (events (populateMarketplace (Some files)))
     = map file_name (filter is_video_file files)"
    by (rule run_observed(1) [OF refl])
  show "parse_calls (events (populateMarketplace (Some files)))
     = map (\<lambda>f. basename (file_name f))
         (filter (\<lambda>f. \<not> fetch_fails f) (filter is_video_file files))"
    by (rule run_observed(2) [OF refl])
  show "write_calls (events (populateMarketplace (Some files)))
     = map (\<lambda>f. basename (file_name f))
         (filter (\<lambda>f. \<not> fetch_fails f) (filter is_video_file files))"
    by (rule run_observed(3) [OF refl])
qed

text \<open>
  C7 at the run over a video whose fetch fails, a file that is no video and a video that
  is processed: the fetcher is called for both videos, the classifier and the writer
  for the second one only.
\<close>

theorem C7_fetch_failure_skips_file_witness:
  "fetch_fails unreachable_file
 \<and> successCount (loop_body 0 2 unreachable_file
      \<lparr> successCount = 0, errorCount = 0, trace = [] \<rparr>) = 0
 \<and> errorCount (loop_body 0 2 unreachable_file
      \<lparr> successCount = 0, errorCount = 0, trace = [] \<rparr>) = 1
 \<and> fetch_calls (events (populateMarketplace (Some [unreachable_file, notes_file, stored_clip])))
     = [''videos/lost-clip.mp4'', ''videos/sunset-beach-walk.mp4'']
 \<and> parse_calls (events (populateMarketplace (Some [unreachable_file, notes_file, stored_clip])))
     = [''sunset-beach-walk.mp4'']
 \<and> write_calls (events (populateMarketplace (Some [unreachable_file, notes_file, stored_clip])))
     = [''sunset-beach-walk.mp4'']"
proof -
  have b: "basename ''videos/sunset-beach-walk.mp4'' = ''sunset-beach-walk.mp4''" by code_simp
  have n: "file_name unreachable_file = ''videos/lost-clip.mp4''"
    "file_name stored_clip = ''videos/sunset-beach-walk.mp4''"
    by (simp_all add: unreachable_file_def stored_clip_def)
  note t = C7_fetch_failure_skips_file [of unreachable_file 0 2
      "\<lparr> successCount = 0, errorCount = 0, trace = [] \<rparr>"
      "[unreachable_file, notes_file, stored_clip]", unfolded example_candidates example_fetched]
  from t fetch_fails_unreachable
  have "loop_body 0 2 unreachable_file \<lparr> successCount = 0, errorCount = 0, trace = [] \<rparr> =
        \<lparr> successCount = 0, errorCount = 0, trace = [] \<rparr>
          \<lparr> trace := trace \<lparr> successCount = 0, errorCount = 0, trace = [] \<rparr> @
              [Log_processing (0 + 1) 2 (basename (file_name unreachable_file)),
               Call_getVideoMetadata (file_name unreachable_file),
               Log_metadata_error (file_name unreachable_file), Log_skipping],
            errorCount := errorCount \<lparr> successCount = 0, errorCount = 0, trace = [] \<rparr> + 1 \<rparr>"
    by blast
  then have c:
    "successCount (loop_body 0 2 unreachable_file
       \<lparr> successCount = 0, errorCount = 0, trace = [] \<rparr>) = 0"
    "errorCount (loop_body 0 2 unreachable_file
       \<lparr> successCount = 0, errorCount = 0, trace = [] \<rparr>) = 1"
    by simp_all
  from t have
    "fetch_calls (events (populateMarketplace (Some [unreachable_file, notes_file, stored_clip])))
     = map file_name [unreachable_file, stored_clip]"
    "parse_calls (events (populateMarketplace (Some [unreachable_file, notes_file, stored_clip])))
     = map (\<lambda>f. basename (file_name f)) [stored_clip]"
    "write_calls (events (populateMarketplace (Some [unreachable_file, notes_file, stored_clip])))
     = map (\<lambda>f. basename (file_name f)) [stored_clip]"
    by blast+
  with c fetch_fails_unreachable show ?thesis by (simp add: n b)
qed

text \<open>
  C8, as the code has it. When no stored file is a video, the run prints that it found
  0 video files and the notice that there are none, and returns: these are its only
  events after the listing request. The fetcher and the writer are not called, no
  document is sent to the store, the block with the counts of successes and errors is
  not printed, and the script ends with status 0.
\<close>

theorem C8_no_video_files:
  assumes "filter is_video_file files = []"
  shows "populateMarketplace (Some files) =
           \<lparr> events = [Log_starting, Call_getFiles, Log_found 0, Log_no_files],
             result = Returned \<rparr>
       \<and> script (Some files) =
           [Log_starting, Call_getFiles, Log_found 0, Log_no_files, Log_script_completed, Exit 0]"
  using assms by (simp add: populateMarketplace_def script_def Let_def)

text \<open>C8 at the run over a storage that holds one text file.\<close>

theorem C8_no_video_files_witness:
  "filter is_video_file [notes_file] = []
 \<and> populateMarketplace (Some [notes_file]) =
      \<lparr> events = [Log_starting, Call_getFiles, Log_found 0, Log_no_files], result = Returned \<rparr>"
  using C8_no_video_files [OF example_candidates(3)] example_candidates(3) by simp

text \<open>
  C8 as stated fails: the run over a storage that holds one text file prints no summary
  with 0 successes, 0 errors and a total of 0.
\<close>

theorem C8_no_summary_without_videos:
  "Log_complete 0 0 0 \<notin> set (events (populateMarketplace (Some [notes_file])))"
  by (simp add: populate_events [OF example_candidates(3)])

text \<open>
  C10. Every iteration of the loop adds 1 to exactly one of the two counters and leaves
  the other as it is, so the loop over the candidate files adds their number to the sum
  of the counters. A run whose listing request succeeds returns; it prints the number
  of candidate files when it has found them, and over at least one candidate its last
  line is the summary with the number of listings created, the number of the other
  candidates and the number of candidates, the first two adding up to the third.
\<close>

theorem C10_counters_add_up:
  "((successCount (loop_body i n file st) = successCount st + 1
        \<and> errorCount (loop_body i n file st) = errorCount st)
     \<or> (successCount (loop_body i n file st) = successCount st
        \<and> errorCount (loop_body i n file st) = errorCount st + 1))
 \<and> successCount (for_loop i n video_files st) + errorCount (for_loop i n video_files st)
     = successCount st + errorCount st + length video_files
 \<and> result (populateMarketplace (Some files)) = Returned
 \<and> Log_found (length (filter is_video_file files)) \<in> set (events (populateMarketplace (Some files)))
 \<and> (filter is_video_file files \<noteq> [] \<longrightarrow>
      last (events (populateMarketplace (Some files)))
        = Log_complete (length (filter listing_created (filter is_video_file files)))
            (length (filter (\<lambda>f. \<not> listing_created f) (filter is_video_file files)))
            (length (filter is_video_file files)))
 \<and> length (filter listing_created (filter is_video_file files))
      + length (filter (\<lambda>f. \<not> listing_created f) (filter is_video_file files))
    = length (filter is_video_file files)"
proof (intro conjI impI)
  show "(successCount (loop_body i n file st) = successCount st + 1
        \<and> errorCount (loop_body i n file st) = errorCount st)
     \<or> (successCount (loop_body i n file st) = successCount st
        \<and> errorCount (loop_body i n file st) = errorCount st + 1)"
    using loop_body_counts [of i n "file" st] by (cases "listing_created file") simp_all
  show "successCount (for_loop i n video_files st) + errorCount (for_loop i n video_files st)
     = successCount st + errorCount st + length video_files"
    using sum_length_filter_compl [of listing_created video_files]
    by (simp add: for_loop_counts)
  show "result (populateMarketplace (Some files)) = Returned" by (rule populate_result)
  show "Log_found (length (filter is_video_file files))
      \<in> set (events (populateMarketplace (Some files)))"
    by (cases "filter is_video_file files = []") (simp_all add: populate_events [OF refl])
  show "length (filter listing_created (filter is_video_file files))
          + length (filter (\<lambda>f. \<not> listing_created f) (filter is_video_file files))
        = length (filter is_video_file files)"
    by (rule sum_length_filter_compl)
next
  assume "filter is_video_file files \<noteq> []"
  then show "last (events (populateMarketplace (Some files)))
        = Log_complete (length (filter listing_created (filter is_video_file files)))
            (length (filter (\<lambda>f. \<not> listing_created f) (filter is_video_file files)))
            (length (filter is_video_file files))"
    by (simp add: populate_events [OF refl])
qed

text \<open>
  C10 at the run over a video whose fetch fails, a file that is no video and a video
  that is processed: one success, one error, two candidates.
\<close>

theorem C10_counters_add_up_witness:
  "filter is_video_file [unreachable_file, notes_file, stored_clip] \<noteq> []
 \<and> last (events (populateMarketplace (Some [unreachable_file, notes_file, stored_clip])))
     = Log_complete 1 1 2"
proof -
  note vf = example_candidates(2)
  have "set_succeeds stored_clip" by (simp add: stored_clip_def)
  then have c: "listing_created stored_clip" "\<not> listing_created unreachable_file"
    by (simp_all add: listing_created_def fetch_ok_stored fetch_fails_unreachable)
  note t = C10_counters_add_up [of 0 2 unreachable_file
      "\<lparr> successCount = 0, errorCount = 0, trace = [] \<rparr>" "[]"
      "[unreachable_file, notes_file, stored_clip]", unfolded vf]
  then have "last (events (populateMarketplace (Some [unreachable_file, notes_file, stored_clip])))
        = Log_complete (length (filter listing_created [unreachable_file, stored_clip]))
            (length (filter (\<lambda>f. \<not> listing_created f) [unreachable_file, stored_clip]))
            (length [unreachable_file, stored_clip])"
    by blast
  with c vf show ?thesis by simp
qed

end
